theory Spec2Isabelle
  imports Main
begin

section \<open>Keyphrase in the SEO title (researches/findKeyphraseInSEOTitle)\<close>

text \<open>
  JavaScript strings are modelled as \<^typ>\<open>string\<close>, one \<^typ>\<open>char\<close> per code
  unit, JavaScript numbers that hold offsets and counts as \<^typ>\<open>int\<close>, arrays as lists
  and object literals with a fixed set of keys as records.
\<close>

subsection \<open>The objects the module reads and returns\<close>

text \<open>The paper, read through \<open>getTitle()\<close>, \<open>getKeyword()\<close> and \<open>getLocale()\<close>.\<close>

record paper =
  getTitle :: string
  getKeyword :: string
  getLocale :: string

text \<open>
  The researcher, read through \<open>getConfig("functionWords")\<close> and
  \<open>getResearch("morphology")\<close>. The topic forms are handed on to
  \<open>findTopicFormsInString\<close> untouched, so their type is a parameter.
\<close>

record 't researcher =
  getConfig_functionWords :: "string list"
  getResearch_morphology :: 't

text \<open>The object literal built in line 94 and returned by every path.\<close>

record match_result =
  exactMatchFound :: bool
  allWordsFound :: bool
  position :: int
  exactMatchKeyphrase :: bool

text \<open>What the imported helpers return, as far as this module reads it.\<close>

record exact_match_request =
  exactMatchRequested :: bool
  keyphrase :: string

record word_match =
  count :: int
  matchPosition :: int

record topic_match =
  percentWordMatches :: int

text \<open>
  Modelled from the spec: the constant \<open>WORD_BOUNDARY_WITH_HYPHEN\<close> is imported from
  \<open>config/wordBoundariesWithoutPunctuation\<close>, which is not among the sources. The spec
  knows two boundary policies, plain whitespace and whitespace with hyphen and en-dash.
\<close>

datatype word_boundary = WORD_BOUNDARY_PLAIN | WORD_BOUNDARY_WITH_HYPHEN

text \<open>
  The functions this module imports from files that are not among the sources, and the
  host's locale-aware lowercasing. The module is verified for every choice of them.
  The last argument of \<open>wordMatch\<close> and of \<open>findTopicFormsInString\<close> is the custom
  matching helper, for which the module passes \<open>false\<close>.
\<close>

record 't helpers =
  toLocaleLowerCase :: "string \<Rightarrow> string"
  getWords :: "string \<Rightarrow> word_boundary \<Rightarrow> string list"
  processExactMatchRequest :: "string \<Rightarrow> exact_match_request"
  wordMatch :: "string \<Rightarrow> string \<Rightarrow> string \<Rightarrow> bool \<Rightarrow> word_match"
  findTopicFormsInString :: "'t \<Rightarrow> string \<Rightarrow> bool \<Rightarrow> string \<Rightarrow> bool \<Rightarrow> topic_match"

text \<open>The module-level variable \<open>let functionWords = []\<close> of line 10.\<close>

record module_state =
  functionWords :: "string list"

definition initial_state :: module_state where
  "initial_state = \<lparr>functionWords = []\<rparr>"

subsection \<open>Library functions: lodash and String.prototype\<close>

text \<open>
  lodash \<open>escapeRegExp\<close> puts a backslash before each of the characters
  \<open>\ ^ $ . * + ? ( ) [ ] { } |\<close> and keeps the rest.
\<close>

definition backslash :: char where
  "backslash = CHR 0x5C"

definition reRegExpChar :: "char list" where
  "reRegExpChar = backslash # ''^$.*+?()[]{}|''"

fun escapeRegExp :: "string \<Rightarrow> string" where
  "escapeRegExp [] = []"
| "escapeRegExp (c # cs) =
     (if c \<in> set reRegExpChar then backslash # c # escapeRegExp cs else c # escapeRegExp cs)"

text \<open>lodash \<open>includes\<close> on an array, and \<open>isEmpty\<close> on an array.\<close>

definition includes_lodash :: "'a list \<Rightarrow> 'a \<Rightarrow> bool" where
  "includes_lodash collection v = (v \<in> set collection)"

definition isEmpty :: "'a list \<Rightarrow> bool" where
  "isEmpty collection = (collection = [])"

text \<open>
  \<open>String.prototype.substr(start, length)\<close>: a negative start counts from the end,
  the length is clamped to what is left, and a negative length gives the empty string.
\<close>

definition substr :: "string \<Rightarrow> int \<Rightarrow> int \<Rightarrow> string" where
  "substr s start len =
     (let size = int (length s);
          from = (if start < 0 then max (size + start) 0 else min start size);
          n = min (max len 0) (size - from)
      in take (nat n) (drop (nat from) s))"

text \<open>\<open>String.prototype.trim\<close> on the white space of ASCII.\<close>

definition isWhiteSpace :: "char \<Rightarrow> bool" where
  "isWhiteSpace c = (c \<in> set [CHR '' '', CHR 0x09, CHR 0x0A, CHR 0x0B, CHR 0x0C, CHR 0x0D])"

definition trim :: "string \<Rightarrow> string" where
  "trim s = rev (dropWhile isWhiteSpace (rev (dropWhile isWhiteSpace s)))"

text \<open>
  Line 116 negates the object \<open>wordMatch\<close> returned. Every JavaScript object is truthy,
  so the negation is false whatever the object holds.
\<close>

definition js_not_object :: "word_match \<Rightarrow> bool" where
  "js_not_object obj = False"

text \<open>
  Line 118 and line 121 read \<open>.count\<close> and \<open>.position\<close> off a string. A string has
  neither property, so both reads give \<open>undefined\<close>, here \<open>None\<close>.
\<close>

definition string_count_position :: "string \<Rightarrow> (int \<times> int) option" where
  "string_count_position s = None"

subsection \<open>The module\<close>

definition stripFunctionWordsFromStart :: "'t helpers \<Rightarrow> module_state \<Rightarrow> string \<Rightarrow> bool" where
  "stripFunctionWordsFromStart h st str0 =
     (let str = toLocaleLowerCase h str0;
          titleWords = getWords h (toLocaleLowerCase h str) WORD_BOUNDARY_WITH_HYPHEN;
          titleWords = filter
            (\<lambda>word. \<not> includes_lodash (functionWords st) (toLocaleLowerCase h (trim word)))
            titleWords
      in isEmpty titleWords)"

definition adjustPosition :: "'t helpers \<Rightarrow> module_state \<Rightarrow> string \<Rightarrow> int \<Rightarrow> int" where
  "adjustPosition h st title pos =
     (if pos = 0 then pos
      else if length (functionWords st) = 0 then pos
      else (let titleBeforeKeyword = substr title 0 pos
            in if stripFunctionWordsFromStart h st titleBeforeKeyword then 0 else pos))"

text \<open>
  The exported function. It assigns the module-level variable first, so the model takes
  the state before the call and returns the state after it beside the result. The branch
  of lines 116 to 124 is kept as written: \<open>undefined > 0\<close> is false, so with
  \<open>None\<close> the result is returned as it stands.
\<close>

definition findKeyphraseInSEOTitle ::
  "'t helpers \<Rightarrow> module_state \<Rightarrow> paper \<Rightarrow> 't researcher \<Rightarrow> match_result \<times> module_state" where
  "findKeyphraseInSEOTitle h st0 paper researcher =
     (let st = st0\<lparr>functionWords := getConfig_functionWords researcher\<rparr>;
          keyword = escapeRegExp (getKeyword paper);
          title = getTitle paper;
          locale = getLocale paper;
          result = \<lparr>exactMatchFound = False, allWordsFound = False, position = - 1,
                    exactMatchKeyphrase = False\<rparr>;
          exactMatchRequest = processExactMatchRequest h keyword;
          keyword = (if exactMatchRequested exactMatchRequest
                     then keyphrase exactMatchRequest else keyword);
          result = (if exactMatchRequested exactMatchRequest
                    then result\<lparr>exactMatchKeyphrase := True\<rparr> else result);
          keywordMatched = wordMatch h title keyword locale False
      in if count keywordMatched > 0 then
           (result\<lparr>exactMatchFound := True, allWordsFound := True,
                   position := adjustPosition h st title (matchPosition keywordMatched)\<rparr>, st)
         else if js_not_object keywordMatched then
           (let keywordMatchedBeforeSanitizing = keyword
            in (case string_count_position keywordMatchedBeforeSanitizing of
                  None \<Rightarrow> (result, st)
                | Some (c, p) \<Rightarrow>
                    if c > 0 then
                      (result\<lparr>exactMatchFound := True, allWordsFound := True,
                              position := adjustPosition h st title p\<rparr>, st)
                    else (result, st)))
         else
           (let topicForms = getResearch_morphology researcher;
                useSynonyms = False;
                separateWordsMatched = findTopicFormsInString h topicForms title useSynonyms locale False
            in if percentWordMatches separateWordsMatched = 100
               then (result\<lparr>allWordsFound := True\<rparr>, st)
               else (result, st)))"

subsection \<open>Position normalisation, in the words of the specification\<close>

text \<open>
  The specification's function-word filter (section 4.2): the tokens and the function-word
  list are both case-folded with the locale-aware lowercasing before they are compared, and
  a token matches when it equals an entry, not when it is part of one.
\<close>

definition matchesFunctionWord :: "'t helpers \<Rightarrow> string list \<Rightarrow> string \<Rightarrow> bool" where
  "matchesFunctionWord h fws token =
     (toLocaleLowerCase h token \<in> set (map (toLocaleLowerCase h) fws))"

text \<open>
  The specification's \<open>normalize(title, rawPosition, functionWords, locale)\<close> (section
  4.5): unchanged when the raw position is 0 or the list is empty; otherwise the substring
  of the title before the raw position is tokenised with the hyphen-inclusive policy, the
  tokens that match the function-word list are stripped, and the position collapses to 0
  when nothing remains and stays otherwise.
\<close>

definition normalize_position :: "'t helpers \<Rightarrow> string \<Rightarrow> int \<Rightarrow> string list \<Rightarrow> int" where
  "normalize_position h title rawPosition fws =
     (if rawPosition = 0 \<or> fws = [] then rawPosition
      else (let preceding = take (nat rawPosition) title;
                tokens = getWords h preceding WORD_BOUNDARY_WITH_HYPHEN;
                remaining = filter (\<lambda>t. \<not> matchesFunctionWord h fws t) tokens
            in if remaining = [] then 0 else rawPosition))"

text \<open>
  The keyword the title is searched for (lines 90 to 102) and the object
  \<open>keywordMatched\<close> of line 105, named so that the theorems can speak of them.
\<close>

definition searchedKeyword :: "'t helpers \<Rightarrow> paper \<Rightarrow> string" where
  "searchedKeyword h paper =
     (let keyword = escapeRegExp (getKeyword paper);
          exactMatchRequest = processExactMatchRequest h keyword
      in if exactMatchRequested exactMatchRequest then keyphrase exactMatchRequest else keyword)"

definition keywordMatched :: "'t helpers \<Rightarrow> paper \<Rightarrow> word_match" where
  "keywordMatched h paper =
     wordMatch h (getTitle paper) (searchedKeyword h paper) (getLocale paper) False"

definition separateWordsMatched :: "'t helpers \<Rightarrow> paper \<Rightarrow> 't researcher \<Rightarrow> topic_match" where
  "separateWordsMatched h paper researcher =
     findTopicFormsInString h (getResearch_morphology researcher) (getTitle paper) False
       (getLocale paper) False"

section \<open>The imported helpers, modelled from the specification\<close>

text \<open>
  None of the helpers is among the sources. The theorems about the module hold for every
  choice of them; the definitions below give one choice, written from the component
  contracts of the specification, on which the module can be run.
\<close>

text \<open>
  Modelled from the spec: the host's \<open>toLocaleLowerCase\<close> is missing; this is
  lowercasing of the letters of ASCII, as an English locale does on ASCII text.
\<close>

definition toLowerCaseChar :: "char \<Rightarrow> char" where
  "toLowerCaseChar c =
     (case map_of (zip ''ABCDEFGHIJKLMNOPQRSTUVWXYZ'' ''abcdefghijklmnopqrstuvwxyz'') c of
        Some d \<Rightarrow> d
      | None \<Rightarrow> c)"

definition toLowerCase :: "string \<Rightarrow> string" where
  "toLowerCase s = map toLowerCaseChar s"

text \<open>
  Modelled from the spec: \<open>helpers/word/getWords\<close> is missing; the specification's
  \<open>tokenize(text, boundaryPolicy)\<close> splits at the separators of the policy (white space,
  and the hyphen under the hyphen-inclusive policy; the en-dash is outside ASCII), keeps
  the order of the tokens and gives no token for the empty text.
\<close>

definition isWordBoundary :: "word_boundary \<Rightarrow> char \<Rightarrow> bool" where
  "isWordBoundary b c = (isWhiteSpace c \<or> (b = WORD_BOUNDARY_WITH_HYPHEN \<and> c = CHR ''-''))"

fun splitWords :: "(char \<Rightarrow> bool) \<Rightarrow> string \<Rightarrow> string \<Rightarrow> string list" where
  "splitWords sep cur [] = (if cur = [] then [] else [cur])"
| "splitWords sep cur (c # cs) =
     (if sep c then (if cur = [] then splitWords sep [] cs else cur # splitWords sep [] cs)
      else splitWords sep (cur @ [c]) cs)"

definition tokenize :: "string \<Rightarrow> word_boundary \<Rightarrow> string list" where
  "tokenize text b = splitWords (isWordBoundary b) [] text"

text \<open>
  Modelled from the spec: \<open>helpers/match/processExactMatchRequest\<close> is missing; the
  specification's \<open>parseExactMatchRequest\<close> detects a keyphrase wrapped in a pair of
  quotation marks, strips them and sets the flag, and otherwise returns the keyphrase
  unchanged with the flag false. The straight double quote is the quotation mark of ASCII.
\<close>

definition doubleQuotes :: "char list" where
  "doubleQuotes = [CHR 0x22]"

definition parseExactMatchRequest :: "string \<Rightarrow> exact_match_request" where
  "parseExactMatchRequest rawKeyphrase =
     (if 2 \<le> length rawKeyphrase \<and> hd rawKeyphrase \<in> set doubleQuotes
         \<and> last rawKeyphrase \<in> set doubleQuotes
      then \<lparr>exactMatchRequested = True, keyphrase = butlast (tl rawKeyphrase)\<rparr>
      else \<lparr>exactMatchRequested = False, keyphrase = rawKeyphrase\<rparr>)"

text \<open>
  Modelled from the spec: \<open>helpers/match/matchTextWithWord\<close> is missing; the
  specification's \<open>locate(haystack, phrase, locale, caseSensitive)\<close> searches the phrase
  literally, case-insensitively unless asked otherwise, counts the non-overlapping
  occurrences and reports the offset of the first one, or -1 when there is none.
\<close>

fun occurrencesFrom :: "string \<Rightarrow> nat \<Rightarrow> nat \<Rightarrow> string \<Rightarrow> nat list" where
  "occurrencesFrom w skip i [] = []"
| "occurrencesFrom w skip i (c # cs) =
     (if skip > 0 then occurrencesFrom w (skip - 1) (i + 1) cs
      else if w \<noteq> [] \<and> take (length w) (c # cs) = w
           then i # occurrencesFrom w (length w - 1) (i + 1) cs
      else occurrencesFrom w 0 (i + 1) cs)"

definition locate :: "string \<Rightarrow> string \<Rightarrow> string \<Rightarrow> bool \<Rightarrow> word_match" where
  "locate haystack phrase locale caseSensitive =
     (let text = (if caseSensitive then haystack else toLowerCase haystack);
          word = (if caseSensitive then phrase else toLowerCase phrase);
          found = occurrencesFrom word 0 0 text
      in \<lparr>count = int (length found),
          matchPosition = (case found of [] \<Rightarrow> - 1 | i # _ \<Rightarrow> int i)\<rparr>)"

text \<open>
  Modelled from the spec: \<open>helpers/match/findKeywordFormsInString\<close> and the morphology
  research are missing; the topic forms hold, per content word of the keyphrase, its
  morphological forms, and the same for each synonym. The coverage is the percentage of the
  content words of which a form is located in the text; without content words it is 0.
  Synonyms count only when the flag asks for them.
\<close>

record topic_forms =
  keyphraseForms :: "string list list"
  synonymsForms :: "string list list list"

definition percentOfWordsFound :: "string list list \<Rightarrow> string \<Rightarrow> string \<Rightarrow> int" where
  "percentOfWordsFound wordForms text locale =
     (if wordForms = [] then 0
      else (100 * int (length (filter
              (\<lambda>forms. list_ex (\<lambda>f. count (locate text f locale False) > 0) forms)
              wordForms))) div int (length wordForms))"

definition coverage :: "topic_forms \<Rightarrow> string \<Rightarrow> bool \<Rightarrow> string \<Rightarrow> bool \<Rightarrow> topic_match" where
  "coverage topicForms text useSynonyms locale customHelper =
     \<lparr>percentWordMatches =
        (if useSynonyms
         then fold max (map (\<lambda>s. percentOfWordsFound s text locale) (synonymsForms topicForms))
                (percentOfWordsFound (keyphraseForms topicForms) text locale)
         else percentOfWordsFound (keyphraseForms topicForms) text locale)\<rparr>"

definition modelled_helpers :: "topic_forms helpers" where
  "modelled_helpers =
     \<lparr>toLocaleLowerCase = toLowerCase,
      getWords = tokenize,
      processExactMatchRequest = parseExactMatchRequest,
      wordMatch = locate,
      findTopicFormsInString = coverage\<rparr>"

section \<open>The module when a helper throws\<close>

text \<open>
  The module has no \<open>try\<close>: an exception thrown by a helper ends the call and reaches
  the caller. Here each imported helper either throws or returns, the module is written
  once more over such helpers, and its outcome is the exception or the result. The
  module-level variable is assigned in line 88 before any helper is called, so the state
  after the call is the same in both cases.
\<close>

datatype js_error = SyntaxError

fun andThen :: "js_error + 'a \<Rightarrow> ('a \<Rightarrow> js_error + 'b) \<Rightarrow> js_error + 'b" where
  "andThen (Inl e) f = Inl e"
| "andThen (Inr v) f = f v"

record 't throwing_helpers =
  toLocaleLowerCase_host :: "string \<Rightarrow> string"
  getWords_throwing :: "string \<Rightarrow> word_boundary \<Rightarrow> js_error + string list"
  processExactMatchRequest_throwing :: "string \<Rightarrow> js_error + exact_match_request"
  wordMatch_throwing :: "string \<Rightarrow> string \<Rightarrow> string \<Rightarrow> bool \<Rightarrow> js_error + word_match"
  findTopicFormsInString_throwing ::
    "'t \<Rightarrow> string \<Rightarrow> bool \<Rightarrow> string \<Rightarrow> bool \<Rightarrow> js_error + topic_match"

definition stripFunctionWordsFromStart_throwing ::
  "'t throwing_helpers \<Rightarrow> module_state \<Rightarrow> string \<Rightarrow> js_error + bool" where
  "stripFunctionWordsFromStart_throwing h st str0 =
     (let str = toLocaleLowerCase_host h str0
      in andThen (getWords_throwing h (toLocaleLowerCase_host h str) WORD_BOUNDARY_WITH_HYPHEN)
           (\<lambda>titleWords.
              let titleWords = filter
                    (\<lambda>word. \<not> includes_lodash (functionWords st)
                               (toLocaleLowerCase_host h (trim word)))
                    titleWords
              in Inr (isEmpty titleWords)))"

definition adjustPosition_throwing ::
  "'t throwing_helpers \<Rightarrow> module_state \<Rightarrow> string \<Rightarrow> int \<Rightarrow> js_error + int" where
  "adjustPosition_throwing h st title pos =
     (if pos = 0 then Inr pos
      else if length (functionWords st) = 0 then Inr pos
      else (let titleBeforeKeyword = substr title 0 pos
            in andThen (stripFunctionWordsFromStart_throwing h st titleBeforeKeyword)
                 (\<lambda>onlyFunctionWords. if onlyFunctionWords then Inr 0 else Inr pos)))"

definition findKeyphraseInSEOTitle_throwing ::
  "'t throwing_helpers \<Rightarrow> module_state \<Rightarrow> paper \<Rightarrow> 't researcher
     \<Rightarrow> (js_error + match_result) \<times> module_state" where
  "findKeyphraseInSEOTitle_throwing h st0 paper researcher =
     (let st = st0\<lparr>functionWords := getConfig_functionWords researcher\<rparr>;
          keyword = escapeRegExp (getKeyword paper);
          title = getTitle paper;
          locale = getLocale paper;
          result = \<lparr>exactMatchFound = False, allWordsFound = False, position = - 1,
                    exactMatchKeyphrase = False\<rparr>
      in (andThen (processExactMatchRequest_throwing h keyword)
           (\<lambda>exactMatchRequest.
              let keyword = (if exactMatchRequested exactMatchRequest
                             then keyphrase exactMatchRequest else keyword);
                  result = (if exactMatchRequested exactMatchRequest
                            then result\<lparr>exactMatchKeyphrase := True\<rparr> else result)
              in andThen (wordMatch_throwing h title keyword locale False)
                   (\<lambda>keywordMatched.
                      if count keywordMatched > 0 then
                        andThen (adjustPosition_throwing h st title (matchPosition keywordMatched))
                          (\<lambda>adjusted. Inr (result\<lparr>exactMatchFound := True,
                                          allWordsFound := True, position := adjusted\<rparr>))
                      else if js_not_object keywordMatched then
                        (let keywordMatchedBeforeSanitizing = keyword
                         in (case string_count_position keywordMatchedBeforeSanitizing of
                               None \<Rightarrow> Inr result
                             | Some (c, p) \<Rightarrow>
                                 if c > 0 then
                                   andThen (adjustPosition_throwing h st title p)
                                     (\<lambda>adjusted. Inr (result\<lparr>exactMatchFound := True,
                                                     allWordsFound := True, position := adjusted\<rparr>))
                                 else Inr result))
                      else
                        (let topicForms = getResearch_morphology researcher;
                             useSynonyms = False
                         in andThen (findTopicFormsInString_throwing h topicForms title
                                       useSynonyms locale False)
                              (\<lambda>separateWordsMatched.
                                 if percentWordMatches separateWordsMatched = 100
                                 then Inr (result\<lparr>allWordsFound := True\<rparr>)
                                 else Inr result)))),
          st))"

text \<open>Helpers that always return are helpers that throw nothing.\<close>

definition returning :: "'t helpers \<Rightarrow> 't throwing_helpers" where
  "returning h =
     \<lparr>toLocaleLowerCase_host = toLocaleLowerCase h,
      getWords_throwing = (\<lambda>text b. Inr (getWords h text b)),
      processExactMatchRequest_throwing = (\<lambda>k. Inr (processExactMatchRequest h k)),
      wordMatch_throwing = (\<lambda>text word locale custom. Inr (wordMatch h text word locale custom)),
      findTopicFormsInString_throwing =
        (\<lambda>forms text useSynonyms locale custom.
           Inr (findTopicFormsInString h forms text useSynonyms locale custom))\<rparr>"

subsection \<open>A matching mechanism with special characters\<close>

text \<open>
  Modelled from the spec: the matching helpers are missing. Section 7 of the specification
  names the malformed phrase: a phrase with characters that have a special meaning to the
  matching mechanism must be escaped before searching, and the module does so for the
  keyphrase in line 90. The mechanism is the host's regular expressions. Of their syntax
  this is the rule that a quantifier (\<open>*\<close>, \<open>+\<close>, \<open>?\<close>) needs something to repeat,
  and that a pattern does not end in a lone backslash; a pattern that breaks it is refused
  with a \<open>SyntaxError\<close>. A backslash makes the next character literal, a quantifier
  repeats the atom before it, a \<open>?\<close> after a quantifier makes it lazy and after an
  opening parenthesis starts a group specifier, and inside a character class nothing is a
  quantifier. Other syntax errors are not modelled.
\<close>

fun patternItems :: "string \<Rightarrow> (bool \<times> char) list" where
  "patternItems [] = []"
| "patternItems [c] = [(False, c)]"
| "patternItems (c # d # cs) =
     (if c = backslash then (True, d) # patternItems cs else (False, c) # patternItems (d # cs))"

datatype scan = NoAtom | Opened | Atom | Quantified | InClass

fun nothingToRepeat :: "scan \<Rightarrow> (bool \<times> char) list \<Rightarrow> bool" where
  "nothingToRepeat s [] = False"
| "nothingToRepeat s ((escaped, c) # items) =
     (if s = InClass then
        nothingToRepeat (if \<not> escaped \<and> c = CHR '']'' then Atom else InClass) items
      else if escaped then nothingToRepeat Atom items
      else if c = backslash then True
      else if c = CHR ''*'' \<or> c = CHR ''+'' then
        (if s = Atom then nothingToRepeat Quantified items else True)
      else if c = CHR ''?'' then
        (if s = Atom then nothingToRepeat Quantified items
         else if s = Quantified \<or> s = Opened then nothingToRepeat NoAtom items
         else True)
      else if c = CHR ''('' then nothingToRepeat Opened items
      else if c = CHR ''|'' \<or> c = CHR ''^'' \<or> c = CHR ''$'' then nothingToRepeat NoAtom items
      else if c = CHR ''['' then nothingToRepeat InClass items
      else nothingToRepeat Atom items)"

definition malformedPattern :: "string \<Rightarrow> bool" where
  "malformedPattern pattern = nothingToRepeat NoAtom (patternItems pattern)"

text \<open>
  The text a pattern stands for when all its special characters are escaped. A pattern
  with special characters that are not escaped is searched as this text too; the theorems
  use patterns that are escaped or malformed.
\<close>

definition literalText :: "string \<Rightarrow> string" where
  "literalText pattern = map snd (patternItems pattern)"

definition matchPattern :: "string \<Rightarrow> string \<Rightarrow> string \<Rightarrow> bool \<Rightarrow> js_error + word_match" where
  "matchPattern text pattern locale customHelper =
     (if malformedPattern pattern then Inl SyntaxError
      else Inr (locate text (literalText pattern) locale False))"

fun mapThrowing :: "('a \<Rightarrow> js_error + 'b) \<Rightarrow> 'a list \<Rightarrow> js_error + 'b list" where
  "mapThrowing f [] = Inr []"
| "mapThrowing f (x # xs) =
     andThen (f x) (\<lambda>y. andThen (mapThrowing f xs) (\<lambda>ys. Inr (y # ys)))"

text \<open>
  The coverage of section 4.6 over this mechanism: each form is handed to it as it comes
  from the morphology research.
\<close>

definition wordFound :: "string \<Rightarrow> string \<Rightarrow> string list \<Rightarrow> js_error + bool" where
  "wordFound text locale forms =
     andThen (mapThrowing (\<lambda>form. matchPattern text form locale False) forms)
       (\<lambda>matched. Inr (list_ex (\<lambda>m. count m > 0) matched))"

definition percentOfWordsFound_throwing ::
  "string list list \<Rightarrow> string \<Rightarrow> string \<Rightarrow> js_error + int" where
  "percentOfWordsFound_throwing wordForms text locale =
     andThen (mapThrowing (wordFound text locale) wordForms)
       (\<lambda>found. Inr (if found = [] then 0
                     else (100 * int (length (filter (\<lambda>b. b) found))) div int (length found)))"

definition coverage_throwing ::
  "topic_forms \<Rightarrow> string \<Rightarrow> bool \<Rightarrow> string \<Rightarrow> bool \<Rightarrow> js_error + topic_match" where
  "coverage_throwing topicForms text useSynonyms locale customHelper =
     andThen (percentOfWordsFound_throwing (keyphraseForms topicForms) text locale)
       (\<lambda>ofKeyphrase.
          if useSynonyms
          then andThen
                 (mapThrowing (\<lambda>s. percentOfWordsFound_throwing s text locale)
                    (synonymsForms topicForms))
                 (\<lambda>ofSynonyms. Inr \<lparr>percentWordMatches = fold max ofSynonyms ofKeyphrase\<rparr>)
          else Inr \<lparr>percentWordMatches = ofKeyphrase\<rparr>)"

definition regexp_helpers :: "topic_forms throwing_helpers" where
  "regexp_helpers =
     \<lparr>toLocaleLowerCase_host = toLowerCase,
      getWords_throwing = (\<lambda>text b. Inr (tokenize text b)),
      processExactMatchRequest_throwing = (\<lambda>k. Inr (parseExactMatchRequest k)),
      wordMatch_throwing = matchPattern,
      findTopicFormsInString_throwing = coverage_throwing\<rparr>"

section \<open>Inclusive language: the rule table of configuration/otherAssessments\<close>

text \<open>
  Modelled from the spec: \<open>./scores\<close> is missing; the table uses its two entries.
\<close>

datatype SCORES = NON_INCLUSIVE | POTENTIALLY_NON_INCLUSIVE

text \<open>
  An entry of the table; \<open>identifier_of\<close> is its \<open>identifier\<close>. \<open>caseSensitive\<close> and \<open>rule\<close> are present on some entries
  only: an absent \<open>caseSensitive\<close> is falsy, an absent \<open>rule\<close> is \<open>None\<close>, and
  \<open>category\<close> and \<open>learnMoreUrl\<close> are absent until the loop at the end of the file
  sets them. A rule takes the words of the text and the words of the phrase and returns
  the indices at which the phrase is found. The feedback texts (\<open>inclusiveAlternatives\<close>,
  \<open>feedbackFormat\<close>) are built from strings of a file that is not among the sources and
  take no part in matching; they are left out.
\<close>

record assessment =
  identifier_of :: string
  nonInclusivePhrases :: "string list"
  score :: SCORES
  caseSensitive :: bool
  rule :: "(string list \<Rightarrow> string list \<Rightarrow> nat list) option"
  category :: "string option"
  learnMoreUrl :: "string option"

text \<open>
  Modelled from the spec: \<open>helpers/includesConsecutiveWords\<close> is missing; it finds every
  contiguous window of the words that equals the words of the phrase, and returns where
  each window starts.
\<close>

definition includesConsecutiveWords :: "string list \<Rightarrow> string list \<Rightarrow> nat list" where
  "includesConsecutiveWords words consecutiveWords =
     filter (\<lambda>i. take (length consecutiveWords) (drop i words) = consecutiveWords)
       [0..<length words]"

text \<open>
  Modelled from the spec: \<open>helpers/isPrecededByException\<close> is missing; a match is vetoed
  when the words of one of the exceptions stand immediately before it.
\<close>

definition isPrecededByException :: "string list \<Rightarrow> string list \<Rightarrow> nat \<Rightarrow> bool" where
  "isPrecededByException words exceptions index =
     list_ex
       (\<lambda>exception.
          let exceptionWords = tokenize exception WORD_BOUNDARY_PLAIN;
              n = length exceptionWords
          in n \<le> index \<and> take n (drop (index - n) words) = exceptionWords)
       exceptions"

definition isNotPrecededByException :: "string list \<Rightarrow> string list \<Rightarrow> nat \<Rightarrow> bool" where
  "isNotPrecededByException words exceptions index =
     (\<not> isPrecededByException words exceptions index)"

text \<open>The \<open>rule\<close> of the entries \<open>normalPerson\<close> and \<open>normalPeople\<close> (lines 29 and 42).\<close>

definition normalRule :: "string list \<Rightarrow> string list \<Rightarrow> nat list" where
  "normalRule words nonInclusivePhrase =
     filter (isNotPrecededByException words [''mentally'', ''behaviorally'', ''behaviourally''])
       (includesConsecutiveWords words nonInclusivePhrase)"

definition entry :: "string \<Rightarrow> string list \<Rightarrow> SCORES \<Rightarrow> assessment" where
  "entry name phrases s =
     \<lparr>identifier_of = name, nonInclusivePhrases = phrases, score = s, caseSensitive = False,
      rule = None, category = None, learnMoreUrl = None\<rparr>"

definition minorities :: assessment where
  "minorities = entry ''minorities'' [''minorities''] POTENTIALLY_NON_INCLUSIVE"

definition normalPerson :: assessment where
  "normalPerson = (entry ''normalPerson'' [''normal person''] NON_INCLUSIVE)
     \<lparr>rule := Some normalRule\<rparr>"

definition normalPeople :: assessment where
  "normalPeople = (entry ''normalPeople'' [''normal people'', ''Normal people''] NON_INCLUSIVE)
     \<lparr>caseSensitive := True, rule := Some normalRule\<rparr>"

definition mentallyNormal :: assessment where
  "mentallyNormal = entry ''mentallyNormal'' [''mentally normal''] NON_INCLUSIVE"

definition behaviorallyNormal :: assessment where
  "behaviorallyNormal = entry ''behaviorallyNormal''
     [''behaviorally normal'', ''behaviourally normal''] POTENTIALLY_NON_INCLUSIVE"

definition abnormalPerson :: assessment where
  "abnormalPerson = entry ''abnormalPerson'' [''abnormal person''] NON_INCLUSIVE"

definition abnormalPeople :: assessment where
  "abnormalPeople = entry ''abnormalPeople'' [''abnormal people''] NON_INCLUSIVE"

definition mentallyAbnormal :: assessment where
  "mentallyAbnormal = entry ''mentallyAbnormal'' [''mentally abnormal''] NON_INCLUSIVE"

definition behaviorallyAbnormal :: assessment where
  "behaviorallyAbnormal = entry ''behaviorallyAbnormal''
     [''behaviorally abnormal'', ''behaviourally abnormal''] POTENTIALLY_NON_INCLUSIVE"

definition abnormalBehavior :: assessment where
  "abnormalBehavior = entry ''abnormalBehavior''
     [''abnormal behavior'', ''abnormal behaviour''] POTENTIALLY_NON_INCLUSIVE"

text \<open>The exported table: the literal, and the loop of lines 104 to 107 over it.\<close>

definition otherAssessments :: "assessment list" where
  "otherAssessments =
     map (\<lambda>a. a\<lparr>category := Some ''other'',
                learnMoreUrl := Some ''https://yoa.st/inclusive-language-other''\<rparr>)
       [minorities, normalPerson, normalPeople, mentallyNormal, behaviorallyNormal,
        abnormalPerson, abnormalPeople, mentallyAbnormal, behaviorallyAbnormal,
        abnormalBehavior]"

text \<open>
  Modelled from the spec: the engine that evaluates an entry is missing. For each phrase of
  the entry, in source order, it finds the windows of the text's words equal to the
  phrase's own words, folding the case of both unless the entry is case sensitive, and
  lets the entry's rule, when it has one, do the finding and the vetoing.
\<close>

definition phraseMatches :: "assessment \<Rightarrow> string list \<Rightarrow> string \<Rightarrow> nat list" where
  "phraseMatches a words phrase =
     (let ws = (if caseSensitive a then words else map toLowerCase words);
          phraseWords = tokenize (if caseSensitive a then phrase else toLowerCase phrase)
                          WORD_BOUNDARY_PLAIN
      in case rule a of
           Some r \<Rightarrow> r ws phraseWords
         | None \<Rightarrow> includesConsecutiveWords ws phraseWords)"

definition evaluate :: "assessment \<Rightarrow> string \<Rightarrow> (string \<times> nat) list" where
  "evaluate a text =
     (let words = tokenize text WORD_BOUNDARY_PLAIN
      in concat (map (\<lambda>phrase. map (\<lambda>i. (phrase, i)) (phraseMatches a words phrase))
                   (nonInclusivePhrases a)))"

definition findAssessment :: "string \<Rightarrow> assessment option" where
  "findAssessment name = find (\<lambda>a. identifier_of a = name) otherAssessments"

section \<open>The scenarios of the specification\<close>

definition functionWords_en :: "string list" where
  "functionWords_en = [''the'']"

definition kitchenSink_forms :: topic_forms where
  "kitchenSink_forms =
     \<lparr>keyphraseForms = [[''kitchen'', ''kitchens''], [''sink'', ''sinks'']],
      synonymsForms = []\<rparr>"

definition kitchenSink_researcher :: "topic_forms researcher" where
  "kitchenSink_researcher =
     \<lparr>getConfig_functionWords = functionWords_en, getResearch_morphology = kitchenSink_forms\<rparr>"

definition kitchenFaucet_researcher :: "topic_forms researcher" where
  "kitchenFaucet_researcher =
     \<lparr>getConfig_functionWords = functionWords_en,
      getResearch_morphology =
        \<lparr>keyphraseForms = [[''kitchen'', ''kitchens''], [''faucet'', ''faucets'']],
         synonymsForms = [[[''sink'', ''sinks'']]]\<rparr>\<rparr>"

definition paper_of :: "string \<Rightarrow> string \<Rightarrow> paper" where
  "paper_of title keyword = \<lparr>getTitle = title, getKeyword = keyword, getLocale = ''en_US''\<rparr>"

definition quoted :: "string \<Rightarrow> string" where
  "quoted s = CHR 0x22 # s @ [CHR 0x22]"

definition rar_researcher :: "topic_forms researcher" where
  "rar_researcher =
     \<lparr>getConfig_functionWords = functionWords_en,
      getResearch_morphology = \<lparr>keyphraseForms = [[''.rar'']], synonymsForms = []\<rparr>\<rparr>"


section \<open>Theorems: the title research\<close>

subsection \<open>Shared facts\<close>

lemma substr_prefix: "substr s 0 len = take (nat len) s"
proof (cases "len \<le> int (length s)")
  case True
  then show ?thesis by (simp add: substr_def Let_def min_def max_def)
next
  case False
  then show ?thesis by (simp add: substr_def Let_def min_def max_def)
qed

lemma stripFunctionWordsFromStart_filter:
  "stripFunctionWordsFromStart h st str =
     (filter (\<lambda>t. toLocaleLowerCase h (trim t) \<notin> set (functionWords st))
        (getWords h (toLocaleLowerCase h (toLocaleLowerCase h str)) WORD_BOUNDARY_WITH_HYPHEN) = [])"
  by (simp add: stripFunctionWordsFromStart_def includes_lodash_def isEmpty_def Let_def)

text \<open>The two paths of the exported function that can be taken.\<close>

lemma findKeyphraseInSEOTitle_found:
  assumes "count (keywordMatched h paper) > 0"
  shows "findKeyphraseInSEOTitle h st paper researcher =
     (\<lparr>exactMatchFound = True, allWordsFound = True,
       position = adjustPosition h (st\<lparr>functionWords := getConfig_functionWords researcher\<rparr>)
                    (getTitle paper) (matchPosition (keywordMatched h paper)),
       exactMatchKeyphrase =
         exactMatchRequested (processExactMatchRequest h (escapeRegExp (getKeyword paper)))\<rparr>,
      st\<lparr>functionWords := getConfig_functionWords researcher\<rparr>)"
  using assms
  by (simp add: findKeyphraseInSEOTitle_def keywordMatched_def searchedKeyword_def Let_def)

lemma findKeyphraseInSEOTitle_not_found:
  assumes "\<not> count (keywordMatched h paper) > 0"
  shows "findKeyphraseInSEOTitle h st paper researcher =
     (\<lparr>exactMatchFound = False,
       allWordsFound = (percentWordMatches (separateWordsMatched h paper researcher) = 100),
       position = - 1,
       exactMatchKeyphrase =
         exactMatchRequested (processExactMatchRequest h (escapeRegExp (getKeyword paper)))\<rparr>,
      st\<lparr>functionWords := getConfig_functionWords researcher\<rparr>)"
  using assms
  by (simp add: findKeyphraseInSEOTitle_def keywordMatched_def searchedKeyword_def
      separateWordsMatched_def js_not_object_def Let_def)

text \<open>The module-level state enters \<open>adjustPosition\<close> through the function words only.\<close>

lemma adjustPosition_state:
  "functionWords st = functionWords st' \<Longrightarrow>
     adjustPosition h st title pos = adjustPosition h st' title pos"
  by (simp add: adjustPosition_def stripFunctionWordsFromStart_def)

subsection \<open>The invariant of the result\<close>

text \<open>
  C1. For every paper, researcher and choice of the helpers, the result has a position of 0
  or more only when \<open>exactMatchFound\<close> is true, and when the title holds no exact
  occurrence of the keyphrase (the count of \<open>wordMatch\<close> is not positive) the position is
  -1 and \<open>exactMatchFound\<close> is false, whatever the coverage makes of \<open>allWordsFound\<close>.
\<close>

theorem findKeyphraseInSEOTitle_position_invariant:
  "(0 \<le> position (fst (findKeyphraseInSEOTitle h st paper researcher))
      \<longrightarrow> exactMatchFound (fst (findKeyphraseInSEOTitle h st paper researcher)))
   \<and> (count (keywordMatched h paper) \<le> 0
      \<longrightarrow> position (fst (findKeyphraseInSEOTitle h st paper researcher)) = - 1
          \<and> \<not> exactMatchFound (fst (findKeyphraseInSEOTitle h st paper researcher)))"
proof (cases "count (keywordMatched h paper) > 0")
  case True
  then show ?thesis by (simp add: findKeyphraseInSEOTitle_found)
next
  case False
  then show ?thesis by (simp add: findKeyphraseInSEOTitle_not_found)
qed

theorem findKeyphraseInSEOTitle_position_invariant_witness:
  "count (keywordMatched modelled_helpers (paper_of ''Sinks for Kitchens'' ''kitchen sink'')) \<le> 0
   \<and> position (fst (findKeyphraseInSEOTitle modelled_helpers initial_state
         (paper_of ''Sinks for Kitchens'' ''kitchen sink'') kitchenSink_researcher)) = - 1
   \<and> allWordsFound (fst (findKeyphraseInSEOTitle modelled_helpers initial_state
         (paper_of ''Sinks for Kitchens'' ''kitchen sink'') kitchenSink_researcher))
   \<and> 0 \<le> position (fst (findKeyphraseInSEOTitle modelled_helpers initial_state
         (paper_of ''Best Kitchen Sink Reviews'' ''kitchen sink'') kitchenSink_researcher))
   \<and> exactMatchFound (fst (findKeyphraseInSEOTitle modelled_helpers initial_state
         (paper_of ''Best Kitchen Sink Reviews'' ''kitchen sink'') kitchenSink_researcher))"
proof -
  have none: "count (keywordMatched modelled_helpers
      (paper_of ''Sinks for Kitchens'' ''kitchen sink'')) \<le> 0"
    by code_simp
  have covered: "allWordsFound (fst (findKeyphraseInSEOTitle modelled_helpers initial_state
      (paper_of ''Sinks for Kitchens'' ''kitchen sink'') kitchenSink_researcher))"
    by code_simp
  have at: "0 \<le> position (fst (findKeyphraseInSEOTitle modelled_helpers initial_state
      (paper_of ''Best Kitchen Sink Reviews'' ''kitchen sink'') kitchenSink_researcher))"
    by code_simp
  from none
    findKeyphraseInSEOTitle_position_invariant [of modelled_helpers initial_state
      "paper_of ''Sinks for Kitchens'' ''kitchen sink''" kitchenSink_researcher]
  have absent: "position (fst (findKeyphraseInSEOTitle modelled_helpers initial_state
      (paper_of ''Sinks for Kitchens'' ''kitchen sink'') kitchenSink_researcher)) = - 1"
    by blast
  from at
    findKeyphraseInSEOTitle_position_invariant [of modelled_helpers initial_state
      "paper_of ''Best Kitchen Sink Reviews'' ''kitchen sink''" kitchenSink_researcher]
  have found: "exactMatchFound (fst (findKeyphraseInSEOTitle modelled_helpers initial_state
      (paper_of ''Best Kitchen Sink Reviews'' ''kitchen sink'') kitchenSink_researcher))"
    by blast
  from none absent covered at found show ?thesis by blast
qed

subsection \<open>Position normalisation\<close>

text \<open>
  C3, as the code has it. For every title, raw position and function-word list,
  \<open>adjustPosition\<close> returns the raw position when it is 0 or the list is empty.
  Otherwise it lowercases the substring of the title before the raw position, tokenises it
  with the hyphen-inclusive policy and strips the tokens whose trimmed, lowercased form is
  an entry of the function-word list as the list is given; it returns 0 when no token
  remains and the raw position otherwise.
\<close>

theorem adjustPosition_folds_tokens_only:
  "adjustPosition h st title pos =
     (if pos = 0 \<or> functionWords st = [] then pos
      else if (\<forall>token \<in> set (getWords h
                   (toLocaleLowerCase h (toLocaleLowerCase h (take (nat pos) title)))
                   WORD_BOUNDARY_WITH_HYPHEN).
                 toLocaleLowerCase h (trim token) \<in> set (functionWords st))
           then 0 else pos)"
  by (simp add: adjustPosition_def substr_prefix stripFunctionWordsFromStart_filter
      filter_empty_conv Let_def)

theorem adjustPosition_folds_tokens_only_witness:
  "getWords modelled_helpers
     (toLocaleLowerCase modelled_helpers
        (toLocaleLowerCase modelled_helpers (take (nat 4) ''The Kitchen Sink Guide'')))
     WORD_BOUNDARY_WITH_HYPHEN = [''the'']
   \<and> toLocaleLowerCase modelled_helpers (trim ''the'') = ''the''
   \<and> matchPosition (locate ''The Kitchen Sink Guide'' ''kitchen sink'' ''en_US'' False) = 4
   \<and> adjustPosition modelled_helpers \<lparr>functionWords = [''the'']\<rparr> ''The Kitchen Sink Guide'' 4 = 0"
proof -
  have tokens: "getWords modelled_helpers
      (toLocaleLowerCase modelled_helpers
         (toLocaleLowerCase modelled_helpers (take (nat 4) ''The Kitchen Sink Guide'')))
      WORD_BOUNDARY_WITH_HYPHEN = [''the'']"
    by code_simp
  have folded: "toLocaleLowerCase modelled_helpers (trim ''the'') = ''the''"
    by code_simp
  have raw: "matchPosition (locate ''The Kitchen Sink Guide'' ''kitchen sink'' ''en_US'' False) = 4"
    by code_simp
  from adjustPosition_folds_tokens_only [of modelled_helpers "\<lparr>functionWords = [''the'']\<rparr>"
      "''The Kitchen Sink Guide''" 4] tokens folded
  have "adjustPosition modelled_helpers \<lparr>functionWords = [''the'']\<rparr>
      ''The Kitchen Sink Guide'' 4 = 0"
    by simp
  with tokens folded raw show ?thesis by blast
qed

text \<open>
  The claim as the specification states it fails. Before position 4 of the title
  \<open>The kitchen sink\<close> stands the one token \<open>The\<close>, which is the entry of the
  function-word list \<open>The\<close>: the normalisation of the specification strips it and
  gives 0, and \<open>adjustPosition\<close> compares the lowercased token with the entry as given
  and returns 4.
\<close>

theorem adjustPosition_uppercase_entry_counterexample:
  "getWords modelled_helpers (take (nat 4) ''The kitchen sink'') WORD_BOUNDARY_WITH_HYPHEN
     = [''The'']
   \<and> normalize_position modelled_helpers ''The kitchen sink'' 4 [''The''] = 0
   \<and> adjustPosition modelled_helpers \<lparr>functionWords = [''The'']\<rparr> ''The kitchen sink'' 4 = 4
   \<and> adjustPosition modelled_helpers \<lparr>functionWords = [''The'']\<rparr> ''The kitchen sink'' 4
       \<noteq> normalize_position modelled_helpers ''The kitchen sink'' 4 [''The'']"
  by code_simp

text \<open>
  On a function-word list of lowercase entries the two agree, for helpers of this kind:
  the lowercasing is idempotent, tokenising a lowercased text gives the lowercased tokens,
  and a token has no white space around it.
\<close>

lemma adjustPosition_normalize_position_lowercase_list:
  assumes idem: "\<And>s. toLocaleLowerCase h (toLocaleLowerCase h s) = toLocaleLowerCase h s"
    and comm: "\<And>s. getWords h (toLocaleLowerCase h s) WORD_BOUNDARY_WITH_HYPHEN =
        map (toLocaleLowerCase h) (getWords h s WORD_BOUNDARY_WITH_HYPHEN)"
    and trimmed: "\<And>s w. w \<in> set (getWords h s WORD_BOUNDARY_WITH_HYPHEN) \<Longrightarrow> trim w = w"
    and lower: "\<And>f. f \<in> set (functionWords st) \<Longrightarrow> toLocaleLowerCase h f = f"
  shows "adjustPosition h st title pos = normalize_position h title pos (functionWords st)"
proof -
  let ?lc = "toLocaleLowerCase h"
  let ?sub = "take (nat pos) title"
  let ?tokens = "getWords h ?sub WORD_BOUNDARY_WITH_HYPHEN"
  have list: "map ?lc (functionWords st) = functionWords st"
    using lower by (simp add: map_idI)
  have folded: "getWords h (?lc (?lc ?sub)) WORD_BOUNDARY_WITH_HYPHEN = map ?lc ?tokens"
    by (simp add: idem comm)
  have token: "?lc (trim (?lc t)) = ?lc t" if "t \<in> set ?tokens" for t
  proof -
    from that have "?lc t \<in> set (getWords h (?lc ?sub) WORD_BOUNDARY_WITH_HYPHEN)"
      by (simp add: comm)
    then have "trim (?lc t) = ?lc t" by (rule trimmed)
    then show ?thesis by (simp add: idem)
  qed
  have "(\<forall>w \<in> set (getWords h (?lc (?lc ?sub)) WORD_BOUNDARY_WITH_HYPHEN).
           ?lc (trim w) \<in> set (functionWords st)) =
        (\<forall>t \<in> set ?tokens. matchesFunctionWord h (functionWords st) t)"
    using token by (simp add: folded matchesFunctionWord_def list)
  then show ?thesis
    by (simp add: adjustPosition_def normalize_position_def substr_prefix
        stripFunctionWordsFromStart_filter filter_empty_conv Let_def)
qed

text \<open>
  C10. For every title, position of 0 or more and function-word list, \<open>adjustPosition\<close>
  returns 0 or the position it was given, and so never more than that position.
\<close>

theorem adjustPosition_zero_or_same:
  "0 \<le> pos \<Longrightarrow>
     (adjustPosition h st title pos = 0 \<or> adjustPosition h st title pos = pos)
     \<and> adjustPosition h st title pos \<le> pos"
  by (simp add: adjustPosition_def Let_def)

theorem adjustPosition_zero_or_same_witness:
  "(0::int) \<le> 5
   \<and> adjustPosition modelled_helpers \<lparr>functionWords = [''the'']\<rparr> ''Best Kitchen Sink Reviews'' 5 = 5
   \<and> adjustPosition modelled_helpers \<lparr>functionWords = [''the'']\<rparr> ''Best Kitchen Sink Reviews'' 5 \<le> 5"
proof -
  have nonneg: "(0::int) \<le> 5" by simp
  have kept: "adjustPosition modelled_helpers \<lparr>functionWords = [''the'']\<rparr>
      ''Best Kitchen Sink Reviews'' 5 \<noteq> 0"
    by code_simp
  from adjustPosition_zero_or_same [OF nonneg, of modelled_helpers
      "\<lparr>functionWords = [''the'']\<rparr>" "''Best Kitchen Sink Reviews''"] kept nonneg
  show ?thesis by simp
qed

subsection \<open>The coverage check\<close>

text \<open>
  C4. For every paper in whose title no exact occurrence of the keyphrase is found,
  \<open>allWordsFound\<close> is true exactly when \<open>findTopicFormsInString\<close>, called on the
  morphology forms with \<open>useSynonyms\<close> false, reports 100 percent of the words matched.
\<close>

theorem findKeyphraseInSEOTitle_coverage:
  "count (keywordMatched h paper) \<le> 0 \<Longrightarrow>
     allWordsFound (fst (findKeyphraseInSEOTitle h st paper researcher)) =
       (percentWordMatches
          (findTopicFormsInString h (getResearch_morphology researcher) (getTitle paper)
             False (getLocale paper) False) = 100)"
  by (simp add: findKeyphraseInSEOTitle_not_found separateWordsMatched_def)

theorem findKeyphraseInSEOTitle_coverage_witness:
  "count (keywordMatched modelled_helpers (paper_of ''Sinks for Kitchens'' ''kitchen sink'')) \<le> 0
   \<and> percentWordMatches (coverage kitchenSink_forms ''Sinks for Kitchens'' False ''en_US'' False) = 100
   \<and> fst (findKeyphraseInSEOTitle modelled_helpers initial_state
         (paper_of ''Sinks for Kitchens'' ''kitchen sink'') kitchenSink_researcher) =
       \<lparr>exactMatchFound = False, allWordsFound = True, position = - 1,
        exactMatchKeyphrase = False\<rparr>"
proof -
  have none: "count (keywordMatched modelled_helpers
      (paper_of ''Sinks for Kitchens'' ''kitchen sink'')) \<le> 0"
    by code_simp
  have full: "percentWordMatches
      (coverage kitchenSink_forms ''Sinks for Kitchens'' False ''en_US'' False) = 100"
    by code_simp
  have rest: "exactMatchFound (fst (findKeyphraseInSEOTitle modelled_helpers initial_state
        (paper_of ''Sinks for Kitchens'' ''kitchen sink'') kitchenSink_researcher)) = False
    \<and> position (fst (findKeyphraseInSEOTitle modelled_helpers initial_state
        (paper_of ''Sinks for Kitchens'' ''kitchen sink'') kitchenSink_researcher)) = - 1
    \<and> exactMatchKeyphrase (fst (findKeyphraseInSEOTitle modelled_helpers initial_state
        (paper_of ''Sinks for Kitchens'' ''kitchen sink'') kitchenSink_researcher)) = False"
    by code_simp
  from findKeyphraseInSEOTitle_coverage [OF none, of initial_state kitchenSink_researcher] full
  have "allWordsFound (fst (findKeyphraseInSEOTitle modelled_helpers initial_state
      (paper_of ''Sinks for Kitchens'' ''kitchen sink'') kitchenSink_researcher)) = True"
    by (simp add: modelled_helpers_def kitchenSink_researcher_def paper_of_def)
  with none full rest show ?thesis by simp
qed

text \<open>
  The modelled coverage, asked without synonyms, does not read the synonym forms, so the
  result of the research is the same whatever they are.
\<close>

lemma coverage_without_synonyms:
  "coverage (topicForms\<lparr>synonymsForms := s\<rparr>) text False locale customHelper =
     coverage topicForms text False locale customHelper"
  by (simp add: coverage_def)

lemma findKeyphraseInSEOTitle_without_synonyms:
  "fst (findKeyphraseInSEOTitle modelled_helpers st paper
          (researcher\<lparr>getResearch_morphology := topicForms\<lparr>synonymsForms := s\<rparr>\<rparr>)) =
   fst (findKeyphraseInSEOTitle modelled_helpers st paper
          (researcher\<lparr>getResearch_morphology := topicForms\<rparr>))"
proof (cases "count (keywordMatched modelled_helpers paper) > 0")
  case True
  then show ?thesis
    by (simp add: findKeyphraseInSEOTitle_found)
next
  case False
  then show ?thesis
    by (simp add: findKeyphraseInSEOTitle_not_found separateWordsMatched_def
        modelled_helpers_def coverage_without_synonyms)
qed

subsection \<open>The module-level variable\<close>

text \<open>
  C7. For every paper and researcher, the result of \<open>findKeyphraseInSEOTitle\<close> does not
  depend on the module-level variable it finds: a second call on the same inputs, made in
  the state the first call left, or in the state a call on any other inputs left, returns
  the same result as the first.
\<close>

theorem findKeyphraseInSEOTitle_deterministic:
  "fst (findKeyphraseInSEOTitle h st paper researcher) =
     fst (findKeyphraseInSEOTitle h st' paper researcher)
   \<and> fst (findKeyphraseInSEOTitle h
            (snd (findKeyphraseInSEOTitle h st paper researcher)) paper researcher) =
     fst (findKeyphraseInSEOTitle h st paper researcher)
   \<and> fst (findKeyphraseInSEOTitle h
            (snd (findKeyphraseInSEOTitle h st paper' researcher')) paper researcher) =
     fst (findKeyphraseInSEOTitle h st paper researcher)"
proof -
  have any: "fst (findKeyphraseInSEOTitle h s paper researcher) =
      fst (findKeyphraseInSEOTitle h s' paper researcher)" for s s'
  proof (cases "count (keywordMatched h paper) > 0")
    case True
    have "adjustPosition h (s\<lparr>functionWords := getConfig_functionWords researcher\<rparr>)
            (getTitle paper) (matchPosition (keywordMatched h paper)) =
          adjustPosition h (s'\<lparr>functionWords := getConfig_functionWords researcher\<rparr>)
            (getTitle paper) (matchPosition (keywordMatched h paper))"
      by (rule adjustPosition_state) simp
    with True show ?thesis by (simp add: findKeyphraseInSEOTitle_found)
  next
    case False
    then show ?thesis by (simp add: findKeyphraseInSEOTitle_not_found)
  qed
  show ?thesis
    using any [of st st'] any [of "snd (findKeyphraseInSEOTitle h st paper researcher)" st]
      any [of "snd (findKeyphraseInSEOTitle h st paper' researcher')" st]
    by simp
qed

subsection \<open>The result in closed form\<close>

text \<open>
  With helpers that return, every path of the function ends in the record of the four
  fields, each determined by the inputs; the branch of lines 116 to 124 adds nothing.
\<close>

lemma findKeyphraseInSEOTitle_closed_form:
  "findKeyphraseInSEOTitle h st paper researcher =
     (\<lparr>exactMatchFound = (0 < count (keywordMatched h paper)),
       allWordsFound = (0 < count (keywordMatched h paper)
          \<or> percentWordMatches (separateWordsMatched h paper researcher) = 100),
       position =
         (if 0 < count (keywordMatched h paper)
          then adjustPosition h (st\<lparr>functionWords := getConfig_functionWords researcher\<rparr>)
                 (getTitle paper) (matchPosition (keywordMatched h paper))
          else - 1),
       exactMatchKeyphrase =
         exactMatchRequested (processExactMatchRequest h (escapeRegExp (getKeyword paper)))\<rparr>,
      st\<lparr>functionWords := getConfig_functionWords researcher\<rparr>)"
proof (cases "count (keywordMatched h paper) > 0")
  case True
  then show ?thesis by (simp add: findKeyphraseInSEOTitle_found)
next
  case False
  then show ?thesis by (simp add: findKeyphraseInSEOTitle_not_found)
qed

subsection \<open>The exact-match request\<close>

text \<open>Escaping keeps what the modelled parser looks at: the two ends and being wrapped.\<close>

lemma escapeRegExp_Nil: "(escapeRegExp k = []) = (k = [])"
  by (cases k) simp_all

lemma escapeRegExp_last: "k \<noteq> [] \<Longrightarrow> last (escapeRegExp k) = last k"
  by (induction k rule: escapeRegExp.induct) (simp_all add: escapeRegExp_Nil)

lemma doubleQuotes_not_escaped: "q \<in> set doubleQuotes \<Longrightarrow> q \<notin> set reRegExpChar"
  by (simp add: doubleQuotes_def reRegExpChar_def backslash_def)

lemma backslash_not_quote: "backslash \<notin> set doubleQuotes"
  by (simp add: doubleQuotes_def backslash_def)

lemma escapeRegExp_wrapped:
  "(2 \<le> length (escapeRegExp k) \<and> hd (escapeRegExp k) \<in> set doubleQuotes
      \<and> last (escapeRegExp k) \<in> set doubleQuotes) =
   (2 \<le> length k \<and> hd k \<in> set doubleQuotes \<and> last k \<in> set doubleQuotes)"
proof (cases k)
  case Nil
  then show ?thesis by simp
next
  case (Cons c cs)
  show ?thesis
  proof (cases "c \<in> set reRegExpChar")
    case True
    with Cons doubleQuotes_not_escaped [of c] backslash_not_quote show ?thesis
      by auto
  next
    case False
    have "(2 \<le> length (escapeRegExp (c # cs))) = (2 \<le> length (c # cs))"
      using False by (cases cs) simp_all
    moreover have "last (escapeRegExp (c # cs)) = last (c # cs)"
      by (rule escapeRegExp_last) simp
    moreover have "hd (escapeRegExp (c # cs)) = c"
      using False by simp
    ultimately show ?thesis using Cons by simp
  qed
qed

lemma parseExactMatchRequest_escapeRegExp:
  "exactMatchRequested (parseExactMatchRequest (escapeRegExp k)) =
     exactMatchRequested (parseExactMatchRequest k)"
  using escapeRegExp_wrapped [of k] by (simp add: parseExactMatchRequest_def)

text \<open>
  C9. For every paper, \<open>exactMatchKeyphrase\<close> is true exactly when
  \<open>processExactMatchRequest\<close> recognised the keyphrase as an exact-match request; the
  search of the title has no part in it, so for a quoted keyphrase that is not found, with
  a coverage other than 100, the result is false, false, -1 and true.
\<close>

theorem findKeyphraseInSEOTitle_exactMatchKeyphrase:
  "exactMatchKeyphrase (fst (findKeyphraseInSEOTitle h st paper researcher)) =
     exactMatchRequested (processExactMatchRequest h (escapeRegExp (getKeyword paper)))
   \<and> (exactMatchRequested (processExactMatchRequest h (escapeRegExp (getKeyword paper)))
        \<and> count (keywordMatched h paper) \<le> 0
        \<and> percentWordMatches (separateWordsMatched h paper researcher) \<noteq> 100
      \<longrightarrow> fst (findKeyphraseInSEOTitle h st paper researcher) =
            \<lparr>exactMatchFound = False, allWordsFound = False, position = - 1,
             exactMatchKeyphrase = True\<rparr>)"
proof (cases "count (keywordMatched h paper) > 0")
  case True
  then show ?thesis by (simp add: findKeyphraseInSEOTitle_found)
next
  case False
  then show ?thesis by (simp add: findKeyphraseInSEOTitle_not_found)
qed

theorem findKeyphraseInSEOTitle_exactMatchKeyphrase_witness:
  "exactMatchRequested (parseExactMatchRequest (quoted ''kitchen faucet''))
   \<and> count (keywordMatched modelled_helpers
        (paper_of ''Best Kitchen Sink Reviews'' (quoted ''kitchen faucet''))) \<le> 0
   \<and> fst (findKeyphraseInSEOTitle modelled_helpers initial_state
        (paper_of ''Best Kitchen Sink Reviews'' (quoted ''kitchen faucet''))
        kitchenFaucet_researcher) =
      \<lparr>exactMatchFound = False, allWordsFound = False, position = - 1,
       exactMatchKeyphrase = True\<rparr>"
proof -
  have raw: "exactMatchRequested (parseExactMatchRequest (quoted ''kitchen faucet''))"
    by code_simp
  have requested: "exactMatchRequested (processExactMatchRequest modelled_helpers
      (escapeRegExp (getKeyword
        (paper_of ''Best Kitchen Sink Reviews'' (quoted ''kitchen faucet'')))))"
    by code_simp
  have none: "count (keywordMatched modelled_helpers
      (paper_of ''Best Kitchen Sink Reviews'' (quoted ''kitchen faucet''))) \<le> 0"
    by code_simp
  have half: "percentWordMatches (separateWordsMatched modelled_helpers
      (paper_of ''Best Kitchen Sink Reviews'' (quoted ''kitchen faucet''))
      kitchenFaucet_researcher) \<noteq> 100"
    by code_simp
  from findKeyphraseInSEOTitle_exactMatchKeyphrase [of modelled_helpers initial_state
      "paper_of ''Best Kitchen Sink Reviews'' (quoted ''kitchen faucet'')"
      kitchenFaucet_researcher] requested none half
  have "fst (findKeyphraseInSEOTitle modelled_helpers initial_state
        (paper_of ''Best Kitchen Sink Reviews'' (quoted ''kitchen faucet''))
        kitchenFaucet_researcher) =
      \<lparr>exactMatchFound = False, allWordsFound = False, position = - 1,
       exactMatchKeyphrase = True\<rparr>"
    by blast
  with raw none show ?thesis by blast
qed

text \<open>
  With the modelled helpers the parser sees the same request on the escaped keyphrase as on
  the keyphrase the author typed.
\<close>

lemma findKeyphraseInSEOTitle_exactMatchKeyphrase_raw:
  "exactMatchKeyphrase (fst (findKeyphraseInSEOTitle modelled_helpers st paper researcher)) =
     exactMatchRequested (parseExactMatchRequest (getKeyword paper))"
proof -
  have "exactMatchKeyphrase (fst (findKeyphraseInSEOTitle modelled_helpers st paper researcher)) =
      exactMatchRequested (parseExactMatchRequest (escapeRegExp (getKeyword paper)))"
  proof (cases "count (keywordMatched modelled_helpers paper) > 0")
    case True
    then show ?thesis by (simp add: findKeyphraseInSEOTitle_found modelled_helpers_def)
  next
    case False
    then show ?thesis by (simp add: findKeyphraseInSEOTitle_not_found modelled_helpers_def)
  qed
  then show ?thesis by (simp add: parseExactMatchRequest_escapeRegExp)
qed

subsection \<open>Exceptions of the helpers\<close>

text \<open>With helpers that always return, the module returns what the model above returns.\<close>

lemma stripFunctionWordsFromStart_throwing_returning:
  "stripFunctionWordsFromStart_throwing (returning h) st str =
     Inr (stripFunctionWordsFromStart h st str)"
  by (simp add: stripFunctionWordsFromStart_throwing_def stripFunctionWordsFromStart_def
      returning_def Let_def)

lemma adjustPosition_throwing_returning:
  "adjustPosition_throwing (returning h) st title pos = Inr (adjustPosition h st title pos)"
  by (simp add: adjustPosition_throwing_def adjustPosition_def
      stripFunctionWordsFromStart_throwing_returning Let_def)

lemma findKeyphraseInSEOTitle_throwing_returning:
  "findKeyphraseInSEOTitle_throwing (returning h) st paper researcher =
     (Inr (fst (findKeyphraseInSEOTitle h st paper researcher)),
      snd (findKeyphraseInSEOTitle h st paper researcher))"
proof -
  have calls:
    "processExactMatchRequest_throwing (returning h) = (\<lambda>k. Inr (processExactMatchRequest h k))"
    "wordMatch_throwing (returning h) = (\<lambda>t w l c. Inr (wordMatch h t w l c))"
    "findTopicFormsInString_throwing (returning h) =
       (\<lambda>f t u l c. Inr (findTopicFormsInString h f t u l c))"
    by (simp_all add: returning_def)
  show ?thesis
    by (simp add: findKeyphraseInSEOTitle_throwing_def findKeyphraseInSEOTitle_def calls
        adjustPosition_throwing_returning js_not_object_def Let_def)
qed

text \<open>
  The module throws nothing of its own: an exception that leaves it was thrown by one of
  the helpers it called.
\<close>

lemma andThen_Inl:
  "andThen x f = Inl e \<Longrightarrow> x = Inl e \<or> (\<exists>v. x = Inr v \<and> f v = Inl e)"
  by (cases x) simp_all

lemma adjustPosition_throwing_Inl:
  "adjustPosition_throwing h st title pos = Inl e \<Longrightarrow>
     \<exists>text. getWords_throwing h text WORD_BOUNDARY_WITH_HYPHEN = Inl e"
  by (auto simp: adjustPosition_throwing_def stripFunctionWordsFromStart_throwing_def Let_def
      split: if_splits dest!: andThen_Inl)

lemma findKeyphraseInSEOTitle_throwing_Inl:
  assumes "fst (findKeyphraseInSEOTitle_throwing h st paper researcher) = Inl e"
  shows "processExactMatchRequest_throwing h (escapeRegExp (getKeyword paper)) = Inl e
     \<or> (\<exists>keyword. wordMatch_throwing h (getTitle paper) keyword (getLocale paper) False = Inl e)
     \<or> (\<exists>text. getWords_throwing h text WORD_BOUNDARY_WITH_HYPHEN = Inl e)
     \<or> findTopicFormsInString_throwing h (getResearch_morphology researcher) (getTitle paper)
          False (getLocale paper) False = Inl e"
  using assms
  by (auto simp: findKeyphraseInSEOTitle_throwing_def js_not_object_def Let_def
      split: if_splits dest!: andThen_Inl adjustPosition_throwing_Inl)

text \<open>
  The escaped keyphrase is never a malformed pattern, and stands for the keyphrase as it was
  typed: the search of line 105 does not throw on the mechanism modelled here.
\<close>

lemma patternItems_escapeRegExp:
  "patternItems (escapeRegExp k) = map (\<lambda>c. (c \<in> set reRegExpChar, c)) k"
proof (induction k)
  case Nil
  then show ?case by simp
next
  case (Cons c cs)
  show ?case
  proof (cases "c \<in> set reRegExpChar")
    case True
    with Cons show ?thesis by simp
  next
    case False
    then have "c \<noteq> backslash" by (auto simp: reRegExpChar_def)
    with False Cons show ?thesis by (cases "escapeRegExp cs") auto
  qed
qed

lemma nothingToRepeat_escaped:
  "s \<noteq> InClass \<Longrightarrow> \<not> nothingToRepeat s (map (\<lambda>c. (c \<in> set reRegExpChar, c)) k)"
proof (induction k arbitrary: s)
  case Nil
  then show ?case by simp
next
  case (Cons c cs)
  have next_state: "\<not> nothingToRepeat Atom (map (\<lambda>c. (c \<in> set reRegExpChar, c)) cs)"
    by (rule Cons.IH) simp
  show ?case
  proof (cases "c \<in> set reRegExpChar")
    case True
    with Cons.prems next_state show ?thesis by simp
  next
    case False
    then have "c \<noteq> backslash" "c \<noteq> CHR ''*''" "c \<noteq> CHR ''+''" "c \<noteq> CHR ''?''"
      "c \<noteq> CHR ''(''" "c \<noteq> CHR ''|''" "c \<noteq> CHR ''^''" "c \<noteq> CHR ''$''" "c \<noteq> CHR ''[''"
      by (auto simp: reRegExpChar_def)
    with False Cons.prems next_state show ?thesis by simp
  qed
qed

lemma escapeRegExp_well_formed: "\<not> malformedPattern (escapeRegExp k)"
  by (simp add: malformedPattern_def patternItems_escapeRegExp nothingToRepeat_escaped)

lemma literalText_escapeRegExp: "literalText (escapeRegExp k) = k"
  by (simp add: literalText_def patternItems_escapeRegExp comp_def)

lemma matchPattern_escapeRegExp:
  "matchPattern text (escapeRegExp k) locale customHelper = Inr (locate text k locale False)"
  by (simp add: matchPattern_def escapeRegExp_well_formed literalText_escapeRegExp)

text \<open>
  A quoted keyphrase is escaped between its quotation marks, so what is searched is an
  escaped text in either case, and on this mechanism only the forms can make the module
  throw.
\<close>

lemma escapeRegExp_append: "escapeRegExp (a @ b) = escapeRegExp a @ escapeRegExp b"
  by (induction a) simp_all

lemma searched_keyword_escaped:
  "\<exists>k'. (if exactMatchRequested (parseExactMatchRequest (escapeRegExp k))
          then keyphrase (parseExactMatchRequest (escapeRegExp k))
          else escapeRegExp k) = escapeRegExp k'"
proof (cases "exactMatchRequested (parseExactMatchRequest (escapeRegExp k))")
  case False
  then show ?thesis by auto
next
  case True
  then have wrapped: "2 \<le> length (escapeRegExp k) \<and> hd (escapeRegExp k) \<in> set doubleQuotes
      \<and> last (escapeRegExp k) \<in> set doubleQuotes"
    by (simp add: parseExactMatchRequest_def split: if_splits)
  then have raw: "2 \<le> length k" "hd k \<in> set doubleQuotes" "last k \<in> set doubleQuotes"
    using escapeRegExp_wrapped [of k] by simp_all
  from raw(1) obtain q rest where k: "k = q # rest"
    by (cases k) auto
  with raw(1) have "rest \<noteq> []" by auto
  then obtain mid q' where rest: "rest = mid @ [q']"
    by (cases rest rule: rev_cases) auto
  from raw(2,3) k rest have "q \<notin> set reRegExpChar" "q' \<notin> set reRegExpChar"
    by (auto dest: doubleQuotes_not_escaped)
  then have "escapeRegExp k = q # escapeRegExp mid @ [q']"
    by (simp add: k rest escapeRegExp_append)
  then have "keyphrase (parseExactMatchRequest (escapeRegExp k)) = escapeRegExp mid"
    using wrapped by (simp add: parseExactMatchRequest_def)
  with True show ?thesis by auto
qed

lemma adjustPosition_throwing_regexp:
  "adjustPosition_throwing regexp_helpers st title pos \<noteq> Inl e"
  by (simp add: adjustPosition_throwing_def stripFunctionWordsFromStart_throwing_def
      regexp_helpers_def Let_def)

lemma findKeyphraseInSEOTitle_throwing_only_forms:
  assumes "fst (findKeyphraseInSEOTitle_throwing regexp_helpers st paper researcher) = Inl e"
  shows "coverage_throwing (getResearch_morphology researcher) (getTitle paper) False
           (getLocale paper) False = Inl e"
proof -
  obtain k' where searched:
    "(if exactMatchRequested (parseExactMatchRequest (escapeRegExp (getKeyword paper)))
      then keyphrase (parseExactMatchRequest (escapeRegExp (getKeyword paper)))
      else escapeRegExp (getKeyword paper)) = escapeRegExp k'"
    using searched_keyword_escaped by blast
  have calls:
    "processExactMatchRequest_throwing regexp_helpers = (\<lambda>k. Inr (parseExactMatchRequest k))"
    "wordMatch_throwing regexp_helpers = matchPattern"
    "findTopicFormsInString_throwing regexp_helpers = coverage_throwing"
    by (simp_all add: regexp_helpers_def)
  from assms show ?thesis
    by (auto simp: findKeyphraseInSEOTitle_throwing_def calls searched matchPattern_escapeRegExp
        js_not_object_def adjustPosition_throwing_regexp Let_def
        split: if_splits dest!: andThen_Inl)
qed


subsection \<open>The function-word test\<close>

text \<open>
  C5, as the code has it. The test folds the case of the tokens only: the title is
  lowercased before it is tokenised and each token again after trimming, and the entries
  of the function-word list are compared as they are given. A title consists of function
  words exactly when the trimmed, lowercased form of each of its tokens is an entry of the
  list.
\<close>

theorem stripFunctionWordsFromStart_folds_tokens:
  "stripFunctionWordsFromStart h st str =
     (\<forall>word \<in> set (getWords h (toLocaleLowerCase h (toLocaleLowerCase h str))
                     WORD_BOUNDARY_WITH_HYPHEN).
        toLocaleLowerCase h (trim word) \<in> set (functionWords st))"
  by (simp add: stripFunctionWordsFromStart_def includes_lodash_def isEmpty_def Let_def
      filter_empty_conv)

theorem stripFunctionWordsFromStart_folds_tokens_witness:
  "getWords modelled_helpers
     (toLocaleLowerCase modelled_helpers (toLocaleLowerCase modelled_helpers ''The ''))
     WORD_BOUNDARY_WITH_HYPHEN = [''the'']
   \<and> toLocaleLowerCase modelled_helpers (trim ''the'') = ''the''
   \<and> stripFunctionWordsFromStart modelled_helpers \<lparr>functionWords = [''the'']\<rparr> ''The ''"
proof -
  have tokens: "getWords modelled_helpers
      (toLocaleLowerCase modelled_helpers (toLocaleLowerCase modelled_helpers ''The ''))
      WORD_BOUNDARY_WITH_HYPHEN = [''the'']"
    by code_simp
  have folded: "toLocaleLowerCase modelled_helpers (trim ''the'') = ''the''"
    by code_simp
  from stripFunctionWordsFromStart_folds_tokens [of modelled_helpers
      "\<lparr>functionWords = [''the'']\<rparr>" "''The ''"] tokens folded
  have "stripFunctionWordsFromStart modelled_helpers \<lparr>functionWords = [''the'']\<rparr> ''The ''"
    by simp
  with tokens folded show ?thesis by blast
qed

text \<open>
  The claim as the specification states it fails: the entry \<open>The\<close> of a function-word
  list does not match the word \<open>the\<close> of a title, so the title that starts with it is
  not taken to start with a function word, and the position of a keyphrase after it stays.
\<close>

theorem stripFunctionWordsFromStart_uppercase_entry_counterexample:
  "\<not> stripFunctionWordsFromStart modelled_helpers \<lparr>functionWords = [''The'']\<rparr> ''the ''
   \<and> stripFunctionWordsFromStart modelled_helpers \<lparr>functionWords = [''the'']\<rparr> ''the ''
   \<and> adjustPosition modelled_helpers \<lparr>functionWords = [''The'']\<rparr> ''the kitchen sink'' 4 = 4
   \<and> adjustPosition modelled_helpers \<lparr>functionWords = [''the'']\<rparr> ''the kitchen sink'' 4 = 0"
  by code_simp

subsection \<open>The fallback on the keyphrase before escaping\<close>

text \<open>
  C2 fails on the code. The branch of lines 116 to 124 is guarded by the negation of an
  object and reads \<open>count\<close> off a string, so it never runs and never finds a match: the
  keyphrase \<open>.rar\<close> occurs in the title \<open>archive.rar\<close>, the escaped keyphrase does
  not, and the result has \<open>exactMatchFound\<close> false and the position -1.
\<close>

theorem findKeyphraseInSEOTitle_fallback_rar:
  "count (locate ''archive.rar'' ''.rar'' ''en_US'' False) = 1
   \<and> matchPosition (locate ''archive.rar'' ''.rar'' ''en_US'' False) = 7
   \<and> count (keywordMatched modelled_helpers (paper_of ''archive.rar'' ''.rar'')) = 0
   \<and> fst (findKeyphraseInSEOTitle modelled_helpers initial_state
        (paper_of ''archive.rar'' ''.rar'') rar_researcher) =
      \<lparr>exactMatchFound = False, allWordsFound = True, position = - 1,
       exactMatchKeyphrase = False\<rparr>"
  by code_simp

text \<open>Whatever the helpers are, the result never comes from that branch.\<close>

lemma findKeyphraseInSEOTitle_fallback_never:
  "count (keywordMatched h paper) \<le> 0 \<Longrightarrow>
     \<not> exactMatchFound (fst (findKeyphraseInSEOTitle h st paper researcher))"
  by (simp add: findKeyphraseInSEOTitle_not_found)

subsection \<open>The modelled tokeniser\<close>

text \<open>
  The modelled tokeniser commutes with the modelled lowercasing, so tokenising the folded
  substring, as the source does, gives the folded tokens of the substring.
\<close>

lemma isWordBoundary_toLowerCaseChar:
  "isWordBoundary b (toLowerCaseChar c) = isWordBoundary b c"
  by (simp add: toLowerCaseChar_def isWordBoundary_def isWhiteSpace_def)

lemma splitWords_toLowerCase:
  "splitWords (isWordBoundary b) (toLowerCase cur) (toLowerCase s) =
     map toLowerCase (splitWords (isWordBoundary b) cur s)"
proof (induction s arbitrary: cur)
  case Nil
  then show ?case by (simp add: toLowerCase_def)
next
  case (Cons c cs)
  have step: "toLowerCase (cur @ [c]) = toLowerCase cur @ [toLowerCaseChar c]"
    by (simp add: toLowerCase_def)
  have nil: "toLowerCase [] = []"
    by (simp add: toLowerCase_def)
  have empty: "(toLowerCase cur = []) = (cur = [])"
    by (simp add: toLowerCase_def)
  have head: "toLowerCase (c # cs) = toLowerCaseChar c # toLowerCase cs"
    by (simp add: toLowerCase_def)
  show ?case
    using Cons.IH [of "[]"] Cons.IH [of "cur @ [c]"]
    by (simp add: head step nil empty isWordBoundary_toLowerCaseChar)
qed

lemma tokenize_toLowerCase:
  "tokenize (toLowerCase s) b = map toLowerCase (tokenize s b)"
  using splitWords_toLowerCase [of b "[]" s] by (simp add: tokenize_def toLowerCase_def)

lemma toLowerCaseChar_range:
  "toLowerCaseChar c = c \<or> toLowerCaseChar c \<in> set ''abcdefghijklmnopqrstuvwxyz''"
  by (simp add: toLowerCaseChar_def)

lemma lowercase_letters_fixed:
  "list_all (\<lambda>c. toLowerCaseChar c = c) ''abcdefghijklmnopqrstuvwxyz''"
  by code_simp

lemma toLowerCaseChar_lowercase:
  "c \<in> set ''abcdefghijklmnopqrstuvwxyz'' \<Longrightarrow> toLowerCaseChar c = c"
  using lowercase_letters_fixed unfolding list_all_iff by blast

lemma toLowerCase_idem: "toLowerCase (toLowerCase s) = toLowerCase s"
proof -
  have "toLowerCaseChar (toLowerCaseChar c) = toLowerCaseChar c" for c
    using toLowerCaseChar_range [of c] toLowerCaseChar_lowercase [of "toLowerCaseChar c"]
    by metis
  then show ?thesis by (simp add: toLowerCase_def)
qed

lemma splitWords_no_boundary:
  assumes "w \<in> set (splitWords sep cur s)" and "\<forall>c \<in> set cur. \<not> sep c"
  shows "\<forall>c \<in> set w. \<not> sep c"
  using assms
proof (induction s arbitrary: cur)
  case Nil
  then have "w = cur" by (simp split: if_splits)
  with Nil.prems(2) show ?case by simp
next
  case (Cons c cs)
  show ?case
  proof (cases "sep c")
    case True
    with Cons.prems(1) have "w = cur \<or> w \<in> set (splitWords sep [] cs)"
      by (simp split: if_splits)
    then show ?thesis
    proof
      assume "w = cur"
      with Cons.prems(2) show ?thesis by simp
    next
      assume "w \<in> set (splitWords sep [] cs)"
      then show ?thesis by (rule Cons.IH) simp
    qed
  next
    case False
    with Cons.prems(1) have inside: "w \<in> set (splitWords sep (cur @ [c]) cs)"
      by simp
    from Cons.prems(2) False have "\<forall>c \<in> set (cur @ [c]). \<not> sep c"
      by simp
    with inside show ?thesis by (rule Cons.IH)
  qed
qed

lemma dropWhile_none: "\<forall>c \<in> set w. \<not> P c \<Longrightarrow> dropWhile P w = w"
  by (cases w) simp_all

lemma trim_no_white_space:
  assumes "\<forall>c \<in> set w. \<not> isWhiteSpace c"
  shows "trim w = w"
proof -
  from assms have "dropWhile isWhiteSpace w = w"
    by (rule dropWhile_none)
  moreover from assms have "dropWhile isWhiteSpace (rev w) = rev w"
    by (intro dropWhile_none) simp
  ultimately show ?thesis by (simp add: trim_def)
qed

lemma tokenize_trimmed:
  assumes "w \<in> set (tokenize s b)"
  shows "trim w = w"
proof -
  from assms have "w \<in> set (splitWords (isWordBoundary b) [] s)"
    by (simp add: tokenize_def)
  then have "\<forall>c \<in> set w. \<not> isWordBoundary b c"
    by (rule splitWords_no_boundary) simp
  then have "\<forall>c \<in> set w. \<not> isWhiteSpace c"
    by (simp add: isWordBoundary_def)
  then show ?thesis by (rule trim_no_white_space)
qed

text \<open>
  So with the modelled helpers and a function-word list of lowercase entries,
  \<open>adjustPosition\<close> is the normalisation of the specification.
\<close>

lemma adjustPosition_modelled_lowercase_list:
  assumes "\<And>f. f \<in> set (functionWords st) \<Longrightarrow> toLowerCase f = f"
  shows "adjustPosition modelled_helpers st title pos =
     normalize_position modelled_helpers title pos (functionWords st)"
proof (rule adjustPosition_normalize_position_lowercase_list)
  show "toLocaleLowerCase modelled_helpers (toLocaleLowerCase modelled_helpers s) =
      toLocaleLowerCase modelled_helpers s" for s
    by (simp add: modelled_helpers_def toLowerCase_idem)
  show "getWords modelled_helpers (toLocaleLowerCase modelled_helpers s) WORD_BOUNDARY_WITH_HYPHEN =
      map (toLocaleLowerCase modelled_helpers)
        (getWords modelled_helpers s WORD_BOUNDARY_WITH_HYPHEN)" for s
    by (simp add: modelled_helpers_def tokenize_toLowerCase)
  show "trim w = w" if "w \<in> set (getWords modelled_helpers s WORD_BOUNDARY_WITH_HYPHEN)" for s w
    using that by (simp add: modelled_helpers_def tokenize_trimmed)
  show "toLocaleLowerCase modelled_helpers f = f" if "f \<in> set (functionWords st)" for f
    using that assms by (simp add: modelled_helpers_def)
qed

section \<open>Theorems: the inclusive-language rules\<close>

text \<open>
  C6. On the words of the text \<open>a mentally normal person\<close> the entry \<open>normalPerson\<close> of
  the table has no match: its phrase is found at word 2, and its rule vetoes the match
  because the exception \<open>mentally\<close> stands immediately before it. The entry
  \<open>mentallyNormal\<close> has exactly one match on the same text.
\<close>

theorem otherAssessments_mentally_normal_person:
  "map_option (\<lambda>a. evaluate a ''a mentally normal person'') (findAssessment ''normalPerson'')
     = Some []
   \<and> includesConsecutiveWords (tokenize ''a mentally normal person'' WORD_BOUNDARY_PLAIN)
       (tokenize ''normal person'' WORD_BOUNDARY_PLAIN) = [2]
   \<and> isPrecededByException (tokenize ''a mentally normal person'' WORD_BOUNDARY_PLAIN)
       [''mentally'', ''behaviorally'', ''behaviourally''] 2
   \<and> map_option (\<lambda>a. evaluate a ''a mentally normal person'') (findAssessment ''mentallyNormal'')
     = Some [(''mentally normal'', 1)]"
  by code_simp

text \<open>
  The veto in general: a match that the rule of \<open>normalPerson\<close> and \<open>normalPeople\<close>
  keeps is never immediately preceded by one of the three exceptions.
\<close>

lemma exception_words:
  "tokenize ''mentally'' WORD_BOUNDARY_PLAIN = [''mentally'']"
  "tokenize ''behaviorally'' WORD_BOUNDARY_PLAIN = [''behaviorally'']"
  "tokenize ''behaviourally'' WORD_BOUNDARY_PLAIN = [''behaviourally'']"
  by code_simp+

lemma take_one_drop: "i < length ws \<Longrightarrow> (take (Suc 0) (drop i ws) = [e]) = (ws ! i = e)"
  by (simp add: Cons_nth_drop_Suc [symmetric])

lemma normalRule_vetoes:
  assumes "index \<in> set (normalRule words phrase)" and "0 < index"
  shows "words ! (index - 1) \<notin> {''mentally'', ''behaviorally'', ''behaviourally''}"
proof -
  from assms(1) have inside: "index < length words"
    and kept: "\<not> isPrecededByException words [''mentally'', ''behaviorally'', ''behaviourally''] index"
    by (auto simp: normalRule_def includesConsecutiveWords_def isNotPrecededByException_def)
  from inside assms(2) have before: "index - 1 < length words" by simp
  from kept assms(2) take_one_drop [OF before] show ?thesis
    by (auto simp: isPrecededByException_def exception_words Let_def)
qed

end
